theory Spec2Isabelle
  imports Complex_Main
begin

section \<open>The store: four tables of rows\<close>

text \<open>
  The program keeps its state in a relational store with the tables \<open>tables\<close>,
  \<open>sessions\<close>, \<open>products\<close> and \<open>orders\<close> (the schema of \<open>init_db\<close>). A table of the
  store is a list of rows in insertion order; a nullable column is an \<open>option\<close>. The
  columns \<open>id\<close> and \<open>kind\<close> occur in several tables and carry the table's initial as a
  prefix here. A \<open>REAL\<close> column and every value the program computes from one are exact
  real numbers in this development; an \<open>INTEGER\<close> column is an unbounded integer.
\<close>

record table_row =
  t_id :: int
  t_name :: string
  t_kind :: string
  status :: string
  hardware :: string
  is_out_of_order :: "int option"

text \<open>
  A wall-clock reading (\<open>datetime.now()\<close>) is a number of microseconds. The columns
  \<open>start_ts\<close> and \<open>end_ts\<close> hold the text \<open>isoformat(timespec="seconds")\<close> makes of a
  reading, which is the reading cut to whole seconds: the stored value is that number
  of seconds. \<open>start_ts\<close> is \<open>None\<close> for a text the program treats as missing (the
  empty text); \<open>end_ts\<close> is \<open>None\<close> for \<open>NULL\<close>, the mark of an active session.
\<close>

type_synonym clock = int

record session_row =
  s_id :: int
  s_table_id :: int
  start_ts :: "int option"
  end_ts :: "int option"
  s_kind :: string
  planned_minutes :: "int option"
  hourly_rate :: "real option"

record product_row =
  p_id :: int
  p_name :: string
  category :: string
  price :: real
  stock :: int

record order_row =
  o_id :: int
  o_session_id :: int
  o_product_id :: int
  o_quantity :: int
  o_amount :: real

record database =
  tables :: "table_row list"
  sessions :: "session_row list"
  products :: "product_row list"
  orders :: "order_row list"

abbreviation TABLE_KIND_VIP :: string where "TABLE_KIND_VIP \<equiv> ''VIP''"
abbreviation TABLE_KIND_STANDARD :: string where "TABLE_KIND_STANDARD \<equiv> ''Standard''"
abbreviation STATUS_EMPTY :: string where "STATUS_EMPTY \<equiv> ''Empty''"
abbreviation STATUS_OCCUPIED :: string where "STATUS_OCCUPIED \<equiv> ''Occupied''"
abbreviation STATUS_RESERVED :: string where "STATUS_RESERVED \<equiv> ''Reserved''"
abbreviation STATUS_OUT_OF_ORDER :: string where "STATUS_OUT_OF_ORDER \<equiv> ''OutOfOrder''"

text \<open>
  \<open>INTEGER PRIMARY KEY AUTOINCREMENT\<close>: a new row gets an id one above the largest id
  of the table, and 1 in an empty table. The program never deletes a row, so the
  largest id the table ever held is the largest it holds.
\<close>

definition next_id :: "int list \<Rightarrow> int" where
  "next_id ids = fold max ids 0 + 1"

section \<open>The operations of database.py\<close>

definition fetch_table :: "database \<Rightarrow> int \<Rightarrow> table_row option" where
  "fetch_table db table_id = find (\<lambda>t. t_id t = table_id) (tables db)"

definition get_hourly_rate :: "database \<Rightarrow> int \<Rightarrow> real" where
  "get_hourly_rate db table_id =
     (case fetch_table db table_id of
        None \<Rightarrow> 0
      | Some t \<Rightarrow> if t_kind t = TABLE_KIND_VIP then 30 else 20)"

definition fetch_active_session :: "database \<Rightarrow> int \<Rightarrow> session_row option" where
  "fetch_active_session db table_id =
     find (\<lambda>s. s_table_id s = table_id \<and> end_ts s = None) (sessions db)"

text \<open>\<open>isoformat(timespec="seconds")\<close> and \<open>datetime.fromisoformat\<close> on its result.\<close>

definition isoformat_seconds :: "clock \<Rightarrow> int" where
  "isoformat_seconds now = now div 1000000"

definition fromisoformat :: "int \<Rightarrow> clock" where
  "fromisoformat ts = ts * 1000000"

definition start_timed_session :: "database \<Rightarrow> int \<Rightarrow> int \<Rightarrow> clock \<Rightarrow> database" where
  "start_timed_session db table_id minutes now =
     (if fetch_active_session db table_id \<noteq> None then db
      else
        let rate = get_hourly_rate db table_id in
        db\<lparr>sessions := sessions db @
              [\<lparr>s_id = next_id (map s_id (sessions db)), s_table_id = table_id,
                start_ts = Some (isoformat_seconds now), end_ts = None,
                s_kind = ''Timed'', planned_minutes = Some minutes,
                hourly_rate = Some rate\<rparr>],
           tables := map (\<lambda>t. if t_id t = table_id then t\<lparr>status := STATUS_OCCUPIED\<rparr> else t)
                       (tables db)\<rparr>)"

definition start_unlimited_session :: "database \<Rightarrow> int \<Rightarrow> clock \<Rightarrow> database" where
  "start_unlimited_session db table_id now =
     (if fetch_active_session db table_id \<noteq> None then db
      else
        let rate = get_hourly_rate db table_id in
        db\<lparr>sessions := sessions db @
              [\<lparr>s_id = next_id (map s_id (sessions db)), s_table_id = table_id,
                start_ts = Some (isoformat_seconds now), end_ts = None,
                s_kind = ''Unlimited'', planned_minutes = None,
                hourly_rate = Some rate\<rparr>],
           tables := map (\<lambda>t. if t_id t = table_id then t\<lparr>status := STATUS_OCCUPIED\<rparr> else t)
                       (tables db)\<rparr>)"

text \<open>
  \<open>add_order\<close> returns the success flag and the store after the call. The insert and
  the update are committed together; every \<open>return False\<close> comes before either.
  \<open>select_product\<close> is its query \<open>SELECT stock, price FROM products WHERE id=?\<close> with
  \<open>fetchone\<close>.
\<close>

definition select_product :: "database \<Rightarrow> int \<Rightarrow> product_row option" where
  "select_product db product_id = find (\<lambda>p. p_id p = product_id) (products db)"

definition add_order :: "database \<Rightarrow> int \<Rightarrow> int \<Rightarrow> int \<Rightarrow> bool \<times> database" where
  "add_order db table_id product_id quantity =
     (case fetch_active_session db table_id of
        None \<Rightarrow> (False, db)
      | Some session \<Rightarrow>
          (case select_product db product_id of
             None \<Rightarrow> (False, db)
           | Some row \<Rightarrow>
               if stock row < quantity then (False, db)
               else
                 let amount = price row * real_of_int quantity in
                 (True,
                  db\<lparr>orders := orders db @
                        [\<lparr>o_id = next_id (map o_id (orders db)), o_session_id = s_id session,
                          o_product_id = product_id, o_quantity = quantity,
                          o_amount = amount\<rparr>],
                     products := map (\<lambda>p. if p_id p = product_id
                                          then p\<lparr>stock := stock p - quantity\<rparr> else p)
                                   (products db)\<rparr>)))"

text \<open>
  \<open>get_active_session_order_total\<close>: the sum of \<open>o.amount\<close> over the join of orders
  with the active sessions of the table; \<open>COALESCE\<close> makes the empty sum 0.
\<close>

definition get_active_session_order_total :: "database \<Rightarrow> int \<Rightarrow> real" where
  "get_active_session_order_total db table_id =
     sum_list (concat (map (\<lambda>ord. map (\<lambda>s. o_amount ord)
        (filter (\<lambda>s. o_session_id ord = s_id s \<and> s_table_id s = table_id \<and> end_ts s = None)
           (sessions db))) (orders db)))"

text \<open>
  Python's \<open>round(x)\<close>: to the nearest integer, a tie to the even one; and
  \<open>round(x, 2)\<close>, the same at the second decimal, here on the exact value. The rates
  \<open>get_hourly_rate\<close> gives (0, 20 and 30) make the charge before rounding a third or a
  half of a whole number of minutes, which is never a tie at the third decimal.
\<close>

definition py_round :: "real \<Rightarrow> int" where
  "py_round x =
     (let f = \<lfloor>x\<rfloor>; r = x - real_of_int f in
      if r < 1 / 2 then f
      else if 1 / 2 < r then f + 1
      else if even f then f else f + 1)"

definition round2 :: "real \<Rightarrow> real" where
  "round2 x = real_of_int (py_round (x * 100)) / 100"

text \<open>
  The value of the guard \<open>session["kind"] == "Timed" and session.get("planned_minutes")\<close>:
  the planned minutes when the guard holds (a null and a zero are both false in
  Python), \<open>None\<close> when it does not.
\<close>

definition timed_guard :: "session_row \<Rightarrow> int option" where
  "timed_guard session =
     (if s_kind session = ''Timed'' then
        (case planned_minutes session of
           None \<Rightarrow> None
         | Some m \<Rightarrow> if m \<noteq> 0 then Some m else None)
      else None)"

text \<open>
  \<open>_calculate_time_charge\<close>. It reads the clock once for \<open>end\<close>, and once more before
  that when \<open>start_ts\<close> is missing: the two readings are the parameters \<open>now_start\<close> and
  \<open>now_end\<close>. \<open>total_seconds()\<close> of a difference is its microseconds over \<open>10^6\<close>.
  \<open>hourly_of\<close> is its first line: the rate of the row, and 0 for a null; \<open>session_start\<close>
  is its \<open>start\<close>: the stored start, and the clock for a missing one.
\<close>

definition hourly_of :: "session_row \<Rightarrow> real" where
  "hourly_of session = (case hourly_rate session of Some h \<Rightarrow> h | None \<Rightarrow> 0)"

definition session_start :: "session_row \<Rightarrow> clock \<Rightarrow> clock" where
  "session_start session now_start =
     (case start_ts session of Some ts \<Rightarrow> fromisoformat ts | None \<Rightarrow> now_start)"

definition calculate_time_charge :: "session_row \<Rightarrow> clock \<Rightarrow> clock \<Rightarrow> real \<times> int" where
  "calculate_time_charge session now_start now_end =
     (let hourly = hourly_of session in
      case timed_guard session of
        Some planned \<Rightarrow>
          let minutes = planned;
              charge = round2 (hourly * (real_of_int minutes / 60))
          in (charge, minutes)
      | None \<Rightarrow>
          let start = session_start session now_start;
              minutes = py_round (real_of_int (now_end - start) / 1000000 / 60);
              minutes = (if minutes < 1 then 1 else minutes);
              charge = round2 (hourly * (real_of_int minutes / 60))
          in (charge, minutes))"

text \<open>
  \<open>end_session\<close> returns the pair \<open>(charge, minutes)\<close> and the store after the call; \<open>now\<close>
  is the clock reading it takes for \<open>end_ts\<close>.
\<close>

definition end_session ::
  "database \<Rightarrow> int \<Rightarrow> clock \<Rightarrow> clock \<Rightarrow> clock \<Rightarrow> (real \<times> int) \<times> database" where
  "end_session db table_id now_start now_end now =
     (case fetch_active_session db table_id of
        None \<Rightarrow> ((0, 0), db)
      | Some session \<Rightarrow>
          (calculate_time_charge session now_start now_end,
           db\<lparr>sessions := map (\<lambda>s. if s_id s = s_id session
                                  then s\<lparr>end_ts := Some (isoformat_seconds now)\<rparr> else s)
                            (sessions db),
              tables := map (\<lambda>t. if t_id t = table_id
                                then t\<lparr>status := (if is_out_of_order t = Some 1
                                                   then STATUS_OUT_OF_ORDER else STATUS_EMPTY)\<rparr>
                                else t)
                          (tables db)\<rparr>))"

definition mark_table_out_of_order :: "database \<Rightarrow> int \<Rightarrow> database" where
  "mark_table_out_of_order db table_id =
     db\<lparr>tables := map (\<lambda>t. if t_id t = table_id
                           then t\<lparr>is_out_of_order := Some 1, status := STATUS_OUT_OF_ORDER\<rparr>
                           else t)
                     (tables db)\<rparr>"

section \<open>Sequences of operations\<close>

text \<open>
  A call of one of the five state-changing operations, with its arguments and the clock
  readings it takes, and the store after a sequence of such calls.
\<close>

datatype operation =
    StartTimed int int clock
  | StartUnlimited int clock
  | AddOrder int int int
  | EndSession int clock clock clock
  | MarkOutOfOrder int

fun apply_operation :: "database \<Rightarrow> operation \<Rightarrow> database" where
  "apply_operation db (StartTimed table_id minutes now) = start_timed_session db table_id minutes now"
| "apply_operation db (StartUnlimited table_id now) = start_unlimited_session db table_id now"
| "apply_operation db (AddOrder table_id product_id quantity) =
     snd (add_order db table_id product_id quantity)"
| "apply_operation db (EndSession table_id now_start now_end now) =
     snd (end_session db table_id now_start now_end now)"
| "apply_operation db (MarkOutOfOrder table_id) = mark_table_out_of_order db table_id"

fun run_operations :: "database \<Rightarrow> operation list \<Rightarrow> database" where
  "run_operations db [] = db"
| "run_operations db (x # xs) = run_operations (apply_operation db x) xs"

text \<open>The open sessions of a table: its rows of \<open>sessions\<close> with \<open>end_ts\<close> null.\<close>

definition open_sessions :: "database \<Rightarrow> int \<Rightarrow> session_row list" where
  "open_sessions db table_id =
     filter (\<lambda>s. s_table_id s = table_id \<and> end_ts s = None) (sessions db)"

section \<open>A store to run the operations on\<close>

text \<open>
  Two of the tables and two of the products \<open>init_db\<close> seeds, no session and no
  order yet.
\<close>

definition seeded_db :: database where
  "seeded_db =
     \<lparr>tables =
        [\<lparr>t_id = 1, t_name = ''Table 1'', t_kind = TABLE_KIND_VIP, status = STATUS_EMPTY,
          hardware = ''RTX 4060 Ti, 165Hz Monitor'', is_out_of_order = Some 0\<rparr>,
         \<lparr>t_id = 6, t_name = ''Table 6'', t_kind = TABLE_KIND_STANDARD, status = STATUS_EMPTY,
          hardware = ''GTX 1650, 75Hz Monitor'', is_out_of_order = Some 0\<rparr>],
      sessions = [],
      products =
        [\<lparr>p_id = 1, p_name = ''Cheese Toast'', category = ''Food'', price = 50, stock = 50\<rparr>,
         \<lparr>p_id = 6, p_name = ''Water'', category = ''Drink'', price = 10, stock = 100\<rparr>],
      orders = []\<rparr>"

text \<open>
  Two session rows as \<open>start_timed_session\<close> and \<open>start_unlimited_session\<close> write them for
  table 6 (a Standard table, 20 an hour) at clock reading 0.
\<close>

definition timed_session_row :: session_row where
  "timed_session_row =
     \<lparr>s_id = 1, s_table_id = 6, start_ts = Some 0, end_ts = None, s_kind = ''Timed'',
      planned_minutes = Some 30, hourly_rate = Some 20\<rparr>"

definition unlimited_session_row :: session_row where
  "unlimited_session_row =
     \<lparr>s_id = 1, s_table_id = 6, start_ts = Some 0, end_ts = None, s_kind = ''Unlimited'',
      planned_minutes = None, hourly_rate = Some 20\<rparr>"

text \<open>
  The relation between the \<open>sessions\<close> table before and after some calls that the
  operations keep: every row stays at its place with its id, rows are only added at the
  end, and a row that had an end timestamp has one.
\<close>

definition keeps_ended :: "session_row list \<Rightarrow> session_row list \<Rightarrow> bool" where
  "keeps_ended xs ys \<longleftrightarrow>
     length xs \<le> length ys \<and>
     (\<forall>i < length xs. s_id (ys ! i) = s_id (xs ! i) \<and>
        (end_ts (xs ! i) \<noteq> None \<longrightarrow> end_ts (ys ! i) \<noteq> None))"



text \<open>
  A session row as these calls write it: when its kind is Timed it has planned minutes,
  at least 1.
\<close>

definition timed_planned :: "session_row \<Rightarrow> bool" where
  "timed_planned s =
     (if s_kind s = ''Timed''
      then (case planned_minutes s of None \<Rightarrow> False | Some m \<Rightarrow> 1 \<le> m)
      else True)"

text \<open>
  The elapsed-or-planned minutes of a session, read off the row and the clock and not
  off the charge computation: the planned minutes of a Timed session, and for any other
  session the time from its start to the close in minutes, as a real number.
\<close>

definition elapsed_or_planned_minutes :: "session_row \<Rightarrow> clock \<Rightarrow> clock \<Rightarrow> real" where
  "elapsed_or_planned_minutes session now_start now_end =
     (case (if s_kind session = ''Timed'' then planned_minutes session else None) of
        Some m \<Rightarrow> real_of_int m
      | None \<Rightarrow> real_of_int (now_end - session_start session now_start) / 1000000 / 60)"

section \<open>Unfolding the operations on a given store\<close>

lemmas operation_defs =
  start_timed_session_def start_unlimited_session_def end_session_def add_order_def
  mark_table_out_of_order_def fetch_active_session_def fetch_table_def get_hourly_rate_def
  select_product_def next_id_def isoformat_seconds_def open_sessions_def seeded_db_def Let_def

lemmas charge_defs =
  calculate_time_charge_def timed_guard_def hourly_of_def session_start_def round2_def
  py_round_def fromisoformat_def Let_def

section \<open>Rounding\<close>

lemma py_round_mono: "x \<le> y \<Longrightarrow> py_round x \<le> py_round y"
proof -
  assume xy: "x \<le> y"
  have fl: "\<lfloor>x\<rfloor> \<le> \<lfloor>y\<rfloor>" using xy by (rule floor_mono)
  have lo: "\<And>z. \<lfloor>z\<rfloor> \<le> py_round z" by (simp add: py_round_def Let_def)
  have hi: "\<And>z. py_round z \<le> \<lfloor>z\<rfloor> + 1" by (simp add: py_round_def Let_def)
  show ?thesis
  proof (cases "\<lfloor>x\<rfloor> < \<lfloor>y\<rfloor>")
    case True
    then have "py_round x \<le> \<lfloor>y\<rfloor>" using hi [of x] by linarith
    then show ?thesis using lo [of y] by linarith
  next
    case False
    then have eq: "\<lfloor>x\<rfloor> = \<lfloor>y\<rfloor>" using fl by linarith
    then show ?thesis using xy by (auto simp: py_round_def Let_def)
  qed
qed

lemma round2_mono: "x \<le> y \<Longrightarrow> round2 x \<le> round2 y"
  by (simp add: round2_def py_round_mono divide_right_mono)

section \<open>The time charge\<close>

lemma timed_guard_Some:
  "timed_guard session = Some m \<longleftrightarrow>
     s_kind session = ''Timed'' \<and> planned_minutes session = Some m \<and> m \<noteq> 0"
  by (auto simp: timed_guard_def split: option.splits)

lemma timed_guard_None:
  "timed_guard session = None \<longleftrightarrow>
     s_kind session \<noteq> ''Timed'' \<or> planned_minutes session = None
       \<or> planned_minutes session = Some 0"
  by (auto simp: timed_guard_def split: option.splits)

lemma charge_of_minutes:
  "fst (calculate_time_charge session now_start now_end) =
     round2 (hourly_of session *
       (real_of_int (snd (calculate_time_charge session now_start now_end)) / 60))"
  by (simp add: calculate_time_charge_def Let_def split: option.splits)

lemma planned_minutes_billed:
  "timed_guard session = Some m \<Longrightarrow>
     calculate_time_charge session now_start now_end =
       (round2 (hourly_of session * (real_of_int m / 60)), m)"
  by (simp add: calculate_time_charge_def Let_def)

lemma elapsed_minutes:
  "timed_guard session = None \<Longrightarrow>
     snd (calculate_time_charge session now_start now_end) =
       max 1 (py_round (real_of_int (now_end - session_start session now_start) / 1000000 / 60))"
  by (simp add: calculate_time_charge_def Let_def max_def)

lemma later_close_more_minutes:
  assumes "now_end \<le> now_end'"
  shows "snd (calculate_time_charge session now_start now_end)
       \<le> snd (calculate_time_charge session now_start now_end')"
proof (cases "timed_guard session")
  case None
  have "real_of_int (now_end - session_start session now_start) / 1000000 / 60
          \<le> real_of_int (now_end' - session_start session now_start) / 1000000 / 60"
    using assms by (simp add: divide_right_mono)
  then have "py_round (real_of_int (now_end - session_start session now_start) / 1000000 / 60)
          \<le> py_round (real_of_int (now_end' - session_start session now_start) / 1000000 / 60)"
    by (rule py_round_mono)
  then show ?thesis
    by (simp only: elapsed_minutes [OF None])
next
  case (Some m)
  then show ?thesis by (simp add: planned_minutes_billed)
qed

lemma charge_mono_in_minutes:
  assumes "hourly_of s1 = hourly_of s2" and "0 \<le> hourly_of s1"
    and "snd (calculate_time_charge s1 a1 b1) \<le> snd (calculate_time_charge s2 a2 b2)"
  shows "fst (calculate_time_charge s1 a1 b1) \<le> fst (calculate_time_charge s2 a2 b2)"
proof -
  let ?m1 = "snd (calculate_time_charge s1 a1 b1)"
  let ?m2 = "snd (calculate_time_charge s2 a2 b2)"
  have "real_of_int ?m1 / 60 \<le> real_of_int ?m2 / 60"
    using assms(3) by (simp add: divide_right_mono)
  then have "hourly_of s1 * (real_of_int ?m1 / 60) \<le> hourly_of s1 * (real_of_int ?m2 / 60)"
    using assms(2) by (rule mult_left_mono)
  then have "round2 (hourly_of s1 * (real_of_int ?m1 / 60))
               \<le> round2 (hourly_of s2 * (real_of_int ?m2 / 60))"
    using assms(1) round2_mono by simp
  then show ?thesis
    by (simp only: charge_of_minutes [symmetric])
qed


section \<open>Queries and updates by id\<close>

lemma find_status_update:
  "find (\<lambda>t. t_id t = k) (map (\<lambda>t. if t_id t = k then t\<lparr>status := f t\<rparr> else t) xs)
     = map_option (\<lambda>t. t\<lparr>status := f t\<rparr>) (find (\<lambda>t. t_id t = k) xs)"
  by (induction xs) simp_all

lemma find_key_unique:
  "distinct (map key xs) \<Longrightarrow> find (\<lambda>x. key x = k) xs = Some r \<Longrightarrow> x \<in> set xs \<Longrightarrow> key x = k
     \<Longrightarrow> x = r"
  by (induction xs) (auto split: if_splits)

lemma select_product_None:
  "select_product db product_id = None \<longleftrightarrow> product_id \<notin> set (map p_id (products db))"
  by (auto simp: select_product_def find_None_iff)

lemma fetch_active_session_Some:
  assumes "fetch_active_session db table_id = Some session"
  shows "session \<in> set (sessions db)" and "s_table_id session = table_id"
    and "end_ts session = None"
  using assms by (auto simp: fetch_active_session_def find_Some_iff)

lemma no_active_no_open:
  "fetch_active_session db table_id = None \<Longrightarrow> open_sessions db table_id = []"
  by (auto simp: fetch_active_session_def open_sessions_def find_None_iff filter_empty_conv)

section \<open>Placing an order\<close>

lemma add_order_False:
  "\<not> fst (add_order db table_id product_id quantity) \<Longrightarrow>
     snd (add_order db table_id product_id quantity) = db"
  by (simp add: add_order_def Let_def split: option.splits if_splits)

lemma add_order_True:
  "fst (add_order db table_id product_id quantity) \<Longrightarrow>
     \<exists>session row. fetch_active_session db table_id = Some session \<and>
        select_product db product_id = Some row \<and> quantity \<le> stock row \<and>
        snd (add_order db table_id product_id quantity) =
          db\<lparr>orders := orders db @
                [\<lparr>o_id = next_id (map o_id (orders db)), o_session_id = s_id session,
                  o_product_id = product_id, o_quantity = quantity,
                  o_amount = price row * real_of_int quantity\<rparr>],
             products := map (\<lambda>p. if p_id p = product_id
                                  then p\<lparr>stock := stock p - quantity\<rparr> else p)
                           (products db)\<rparr>"
  by (simp add: add_order_def Let_def split: option.splits if_splits)

lemma add_order_flag:
  "fst (add_order db table_id product_id quantity) \<longleftrightarrow>
     (\<exists>session row. fetch_active_session db table_id = Some session \<and>
        select_product db product_id = Some row \<and> quantity \<le> stock row)"
  by (auto simp: add_order_def Let_def split: option.splits if_splits)

lemma sessions_add_order:
  "sessions (snd (add_order db table_id product_id quantity)) = sessions db"
  by (cases "fst (add_order db table_id product_id quantity)")
     (auto dest!: add_order_True simp: add_order_False)

lemma products_ids_add_order:
  "map p_id (products (snd (add_order db table_id product_id quantity))) = map p_id (products db)"
  by (cases "fst (add_order db table_id product_id quantity)")
     (auto dest!: add_order_True simp: add_order_False comp_def)

lemma add_order_stock_nonneg:
  assumes d: "distinct (map p_id (products db))"
    and nn: "\<forall>p \<in> set (products db). 0 \<le> stock p"
  shows "\<forall>p \<in> set (products (snd (add_order db table_id product_id quantity))). 0 \<le> stock p"
proof (cases "fst (add_order db table_id product_id quantity)")
  case False
  then have "snd (add_order db table_id product_id quantity) = db"
    by (rule add_order_False)
  then show ?thesis using nn by simp
next
  case True
  from add_order_True [OF True]
  obtain session row where row: "select_product db product_id = Some row" "quantity \<le> stock row"
    and prods: "products (snd (add_order db table_id product_id quantity)) =
      map (\<lambda>p. if p_id p = product_id then p\<lparr>stock := stock p - quantity\<rparr> else p) (products db)"
    by auto
  have same: "p = row" if "p \<in> set (products db)" "p_id p = product_id" for p
    using find_key_unique [OF d row(1) [unfolded select_product_def] that] .
  show ?thesis
    unfolding prods using nn row(2) same by auto
qed

lemma products_apply_operation:
  "products (apply_operation db x) = products db \<or> (\<exists>t p q. x = AddOrder t p q)"
  by (cases x)
     (simp_all add: start_timed_session_def start_unlimited_session_def Let_def
        end_session_def mark_table_out_of_order_def split: option.splits)

lemma apply_operation_stock_nonneg:
  assumes "distinct (map p_id (products db))" "\<forall>p \<in> set (products db). 0 \<le> stock p"
  shows "distinct (map p_id (products (apply_operation db x))) \<and>
         (\<forall>p \<in> set (products (apply_operation db x)). 0 \<le> stock p)"
proof (cases "\<exists>t p q. x = AddOrder t p q")
  case True
  then show ?thesis
    using assms add_order_stock_nonneg [OF assms] by (auto simp: products_ids_add_order)
next
  case False
  then show ?thesis using assms products_apply_operation [of db x] by auto
qed

lemma run_operations_stock_nonneg:
  "distinct (map p_id (products db)) \<Longrightarrow> \<forall>p \<in> set (products db). 0 \<le> stock p \<Longrightarrow>
     distinct (map p_id (products (run_operations db xs))) \<and>
     (\<forall>p \<in> set (products (run_operations db xs)). 0 \<le> stock p)"
proof (induction xs arbitrary: db)
  case Nil
  then show ?case by simp
next
  case (Cons x xs)
  show ?case
    using Cons.IH [of "apply_operation db x"] apply_operation_stock_nonneg [OF Cons.prems]
    by simp
qed

lemma orders_apply_operation:
  "\<exists>more. orders (apply_operation db x) = orders db @ more"
proof (cases x)
  case (AddOrder table_id product_id quantity)
  then show ?thesis
    by (cases "fst (add_order db table_id product_id quantity)")
       (auto dest!: add_order_True simp: add_order_False)
qed (simp_all add: start_timed_session_def start_unlimited_session_def Let_def
      end_session_def mark_table_out_of_order_def split: option.splits)

lemma orders_run_operations:
  "\<exists>more. orders (run_operations db xs) = orders db @ more"
proof (induction xs arbitrary: db)
  case Nil
  show ?case by simp
next
  case (Cons x xs)
  obtain m1 where m1: "orders (apply_operation db x) = orders db @ m1"
    using orders_apply_operation by blast
  obtain m2 where m2:
    "orders (run_operations (apply_operation db x) xs) = orders (apply_operation db x) @ m2"
    using Cons.IH by blast
  show ?case by (simp add: m1 m2)
qed

text \<open>
  Claim C1. The product ids are a primary key, so no two rows of \<open>products\<close> share one.
  On a store where no stock is negative, an order that \<open>add_order\<close> inserts has a
  quantity that is at most the stock its query found; and after the call, whether it
  inserted or not, no stock is negative. So it is after every sequence of operations.
\<close>

theorem add_order_keeps_stock_nonnegative:
  assumes "distinct (map p_id (products db))"
    and "\<forall>p \<in> set (products db). 0 \<le> stock p"
  shows "(fst (add_order db table_id product_id quantity) \<longrightarrow>
            (\<exists>row ord. select_product db product_id = Some row \<and>
               orders (snd (add_order db table_id product_id quantity)) = orders db @ [ord] \<and>
               o_quantity ord = quantity \<and> o_quantity ord \<le> stock row))
         \<and> (\<forall>p \<in> set (products (snd (add_order db table_id product_id quantity))). 0 \<le> stock p)
         \<and> (\<forall>p \<in> set (products (run_operations db xs)). 0 \<le> stock p)"
proof (intro conjI impI)
  assume "fst (add_order db table_id product_id quantity)"
  from add_order_True [OF this]
  show "\<exists>row ord. select_product db product_id = Some row \<and>
      orders (snd (add_order db table_id product_id quantity)) = orders db @ [ord] \<and>
      o_quantity ord = quantity \<and> o_quantity ord \<le> stock row"
    by auto
next
  show "\<forall>p \<in> set (products (snd (add_order db table_id product_id quantity))). 0 \<le> stock p"
    using assms by (rule add_order_stock_nonneg)
next
  show "\<forall>p \<in> set (products (run_operations db xs)). 0 \<le> stock p"
    using run_operations_stock_nonneg [OF assms] by simp
qed

theorem add_order_keeps_stock_nonnegative_witness:
  "distinct (map p_id (products (start_unlimited_session seeded_db 1 0))) \<and>
   map stock (products (start_unlimited_session seeded_db 1 0)) = [50, 100] \<and>
   fst (add_order (start_unlimited_session seeded_db 1 0) 1 1 50) \<and>
   map o_quantity (orders (snd (add_order (start_unlimited_session seeded_db 1 0) 1 1 50))) = [50] \<and>
   map stock (products (snd (add_order (start_unlimited_session seeded_db 1 0) 1 1 50))) = [0, 100] \<and>
   map stock (products (run_operations (start_unlimited_session seeded_db 1 0)
      [AddOrder 1 1 50, AddOrder 1 1 1, AddOrder 1 6 3])) = [0, 97]"
  using add_order_keeps_stock_nonnegative [where db = "start_unlimited_session seeded_db 1 0"
      and table_id = 1 and product_id = 1 and quantity = 50
      and xs = "[AddOrder 1 1 50, AddOrder 1 1 1, AddOrder 1 6 3]"]
  by (simp add: operation_defs)

text \<open>
  Claim C4. The order row a successful \<open>add_order\<close> stores has for amount the price its
  query found times the quantity. No operation changes a stored order row: every
  sequence of operations only adds rows after the ones there, also on a store whose
  products (and so prices) were replaced by any others; and the order total of a table
  is computed from the stored amounts, the same whatever the products table holds.
\<close>

theorem order_amount_fixed_at_order_time:
  "(fst (add_order db table_id product_id quantity) \<longrightarrow>
      (\<exists>row ord. select_product db product_id = Some row \<and>
         orders (snd (add_order db table_id product_id quantity)) = orders db @ [ord] \<and>
         o_amount ord = price row * real_of_int quantity))
   \<and> (\<exists>more. orders (run_operations (db\<lparr>products := ps\<rparr>) xs) = orders db @ more)
   \<and> get_active_session_order_total (db\<lparr>products := ps\<rparr>) table_id =
       get_active_session_order_total db table_id"
proof (intro conjI impI)
  assume "fst (add_order db table_id product_id quantity)"
  from add_order_True [OF this]
  show "\<exists>row ord. select_product db product_id = Some row \<and>
      orders (snd (add_order db table_id product_id quantity)) = orders db @ [ord] \<and>
      o_amount ord = price row * real_of_int quantity"
    by auto
next
  show "\<exists>more. orders (run_operations (db\<lparr>products := ps\<rparr>) xs) = orders db @ more"
    using orders_run_operations [of "db\<lparr>products := ps\<rparr>" xs] by simp
next
  show "get_active_session_order_total (db\<lparr>products := ps\<rparr>) table_id =
      get_active_session_order_total db table_id"
    by (simp add: get_active_session_order_total_def)
qed

theorem order_amount_fixed_at_order_time_witness:
  "fst (add_order (start_unlimited_session seeded_db 1 0) 1 1 3) \<and>
   map price (products (start_unlimited_session seeded_db 1 0)) = [50, 10] \<and>
   map o_amount (orders (snd (add_order (start_unlimited_session seeded_db 1 0) 1 1 3))) = [150] \<and>
   get_active_session_order_total
     (snd (add_order (start_unlimited_session seeded_db 1 0) 1 1 3)) 1 = 150 \<and>
   get_active_session_order_total
     ((snd (add_order (start_unlimited_session seeded_db 1 0) 1 1 3))
        \<lparr>products := [\<lparr>p_id = 1, p_name = ''Cheese Toast'', category = ''Food'',
                         price = 75, stock = 47\<rparr>]\<rparr>) 1 = 150"
  using order_amount_fixed_at_order_time [where db = "start_unlimited_session seeded_db 1 0"
      and table_id = 1 and product_id = 1 and quantity = 3 and xs = "[]" and ps = "[]"]
    order_amount_fixed_at_order_time
      [where db = "snd (add_order (start_unlimited_session seeded_db 1 0) 1 1 3)"
      and table_id = 1 and product_id = 1 and quantity = 3 and xs = "[]"
      and ps = "[\<lparr>p_id = 1, p_name = ''Cheese Toast'', category = ''Food'',
                   price = 75, stock = 47\<rparr>]"]
  by (simp add: operation_defs get_active_session_order_total_def)

text \<open>
  Claim C5. \<open>add_order\<close> returns \<open>False\<close> exactly when the table has no active session,
  or no product has the id, or the stock its query found is less than the quantity.
  When it returns \<open>False\<close> the store is the one it found; when it returns \<open>True\<close> the
  store has one order row more and the stock of the product lowered by the quantity:
  the two changes come together or not at all.
\<close>

theorem add_order_fails_without_change:
  "(\<not> fst (add_order db table_id product_id quantity) \<longleftrightarrow>
      fetch_active_session db table_id = None \<or>
      product_id \<notin> set (map p_id (products db)) \<or>
      (\<exists>row. select_product db product_id = Some row \<and> stock row < quantity))
   \<and> (\<not> fst (add_order db table_id product_id quantity) \<longrightarrow>
        snd (add_order db table_id product_id quantity) = db)
   \<and> (fst (add_order db table_id product_id quantity) \<longrightarrow>
        length (orders (snd (add_order db table_id product_id quantity)))
          = length (orders db) + 1 \<and>
        products (snd (add_order db table_id product_id quantity)) =
          map (\<lambda>p. if p_id p = product_id then p\<lparr>stock := stock p - quantity\<rparr> else p)
            (products db))"
proof (intro conjI impI)
  show "\<not> fst (add_order db table_id product_id quantity) \<longleftrightarrow>
      fetch_active_session db table_id = None \<or>
      product_id \<notin> set (map p_id (products db)) \<or>
      (\<exists>row. select_product db product_id = Some row \<and> stock row < quantity)"
    unfolding add_order_flag select_product_None [symmetric]
    by (cases "fetch_active_session db table_id"; cases "select_product db product_id") auto
next
  assume "\<not> fst (add_order db table_id product_id quantity)"
  then show "snd (add_order db table_id product_id quantity) = db"
    by (rule add_order_False)
next
  assume t: "fst (add_order db table_id product_id quantity)"
  from add_order_True [OF t]
  show "length (orders (snd (add_order db table_id product_id quantity)))
      = length (orders db) + 1"
    by auto
  from add_order_True [OF t]
  show "products (snd (add_order db table_id product_id quantity)) =
      map (\<lambda>p. if p_id p = product_id then p\<lparr>stock := stock p - quantity\<rparr> else p)
        (products db)"
    by auto
qed

theorem add_order_fails_without_change_witness:
  "fetch_active_session seeded_db 1 = None \<and>
   fst (add_order seeded_db 1 1 2) = False \<and> snd (add_order seeded_db 1 1 2) = seeded_db \<and>
   fst (add_order (start_unlimited_session seeded_db 1 0) 1 2 1) = False \<and>
   map stock (products (start_unlimited_session seeded_db 1 0)) = [50, 100] \<and>
   fst (add_order (start_unlimited_session seeded_db 1 0) 1 1 51) = False \<and>
   snd (add_order (start_unlimited_session seeded_db 1 0) 1 1 51)
     = start_unlimited_session seeded_db 1 0 \<and>
   fst (add_order (start_unlimited_session seeded_db 1 0) 1 1 50) = True \<and>
   length (orders (snd (add_order (start_unlimited_session seeded_db 1 0) 1 1 50))) = 1 \<and>
   map stock (products (snd (add_order (start_unlimited_session seeded_db 1 0) 1 1 50)))
     = [0, 100]"
  using add_order_fails_without_change [where db = seeded_db and table_id = 1
      and product_id = 1 and quantity = 2]
    add_order_fails_without_change [where db = "start_unlimited_session seeded_db 1 0"
      and table_id = 1 and product_id = 1 and quantity = 51]
    add_order_fails_without_change [where db = "start_unlimited_session seeded_db 1 0"
      and table_id = 1 and product_id = 1 and quantity = 50]
  by (simp add: operation_defs)

section \<open>Open sessions\<close>

lemma open_start_timed:
  assumes "length (open_sessions db t) \<le> 1"
  shows "length (open_sessions (start_timed_session db table_id minutes now) t) \<le> 1"
proof (cases "fetch_active_session db table_id")
  case None
  from no_active_no_open [OF None] assms show ?thesis
    by (auto simp: start_timed_session_def None open_sessions_def Let_def)
next
  case (Some s)
  then show ?thesis using assms by (simp add: start_timed_session_def)
qed

lemma open_start_unlimited:
  assumes "length (open_sessions db t) \<le> 1"
  shows "length (open_sessions (start_unlimited_session db table_id now) t) \<le> 1"
proof (cases "fetch_active_session db table_id")
  case None
  from no_active_no_open [OF None] assms show ?thesis
    by (auto simp: start_unlimited_session_def None open_sessions_def Let_def)
next
  case (Some s)
  then show ?thesis using assms by (simp add: start_unlimited_session_def)
qed

lemma filter_open_after_close:
  "length (filter (\<lambda>s. s_table_id s = t \<and> end_ts s = None)
             (map (\<lambda>s. if Q s then s\<lparr>end_ts := Some v\<rparr> else s) xs))
     \<le> length (filter (\<lambda>s. s_table_id s = t \<and> end_ts s = None) xs)"
  by (induction xs) auto

lemma open_end_session:
  "length (open_sessions (snd (end_session db table_id a b c)) t) \<le> length (open_sessions db t)"
proof (cases "fetch_active_session db table_id")
  case None
  then show ?thesis by (simp add: end_session_def)
next
  case (Some session)
  then show ?thesis
    unfolding end_session_def open_sessions_def
    using filter_open_after_close [of t "\<lambda>s. s_id s = s_id session" "isoformat_seconds c" "sessions db"]
    by (simp del: filter_map)
qed

lemma open_apply_operation:
  assumes "length (open_sessions db t) \<le> 1"
  shows "length (open_sessions (apply_operation db x) t) \<le> 1"
proof (cases x)
  case (StartTimed table_id minutes now)
  then show ?thesis using open_start_timed [OF assms] by simp
next
  case (StartUnlimited table_id now)
  then show ?thesis using open_start_unlimited [OF assms] by simp
next
  case (AddOrder table_id product_id quantity)
  then show ?thesis using assms by (simp add: open_sessions_def sessions_add_order)
next
  case (EndSession table_id a b c)
  then show ?thesis
    using assms open_end_session [of db table_id a b c t] by simp
next
  case (MarkOutOfOrder table_id)
  then show ?thesis using assms by (simp add: open_sessions_def mark_table_out_of_order_def)
qed

lemma open_run_operations:
  "length (open_sessions db t) \<le> 1 \<Longrightarrow> length (open_sessions (run_operations db xs) t) \<le> 1"
proof (induction xs arbitrary: db)
  case Nil
  then show ?case by simp
next
  case (Cons x xs)
  from Cons.IH [OF open_apply_operation [OF Cons.prems]] show ?case by simp
qed

text \<open>
  Claim C3. A table that has at most one open session (a row of \<open>sessions\<close> with
  \<open>end_ts\<close> null) has at most one after every sequence of \<open>start_timed_session\<close>,
  \<open>start_unlimited_session\<close>, \<open>add_order\<close>, \<open>end_session\<close> and
  \<open>mark_table_out_of_order\<close> calls, on this or any other table. On a table that has an
  active session both start operations leave the store as it is.
\<close>

theorem at_most_one_open_session:
  "(length (open_sessions db t) \<le> 1 \<longrightarrow> length (open_sessions (run_operations db xs) t) \<le> 1)
   \<and> (fetch_active_session db table_id \<noteq> None \<longrightarrow>
        start_timed_session db table_id minutes now = db \<and>
        start_unlimited_session db table_id now = db)"
proof (intro conjI impI)
  assume "length (open_sessions db t) \<le> 1"
  then show "length (open_sessions (run_operations db xs) t) \<le> 1"
    by (rule open_run_operations)
next
  assume a: "fetch_active_session db table_id \<noteq> None"
  show "start_timed_session db table_id minutes now = db"
    using a by (simp add: start_timed_session_def)
  show "start_unlimited_session db table_id now = db"
    using a by (simp add: start_unlimited_session_def)
qed

theorem at_most_one_open_session_witness:
  "length (open_sessions (start_timed_session seeded_db 1 60 0) 1) = 1 \<and>
   length (open_sessions (run_operations (start_timed_session seeded_db 1 60 0)
      [StartUnlimited 1 5000000, StartTimed 6 30 6000000, AddOrder 1 1 2,
       StartTimed 1 30 7000000]) 1) = 1 \<and>
   length (open_sessions (run_operations (start_timed_session seeded_db 1 60 0)
      [StartUnlimited 1 5000000, EndSession 1 0 3600000000 3600000000,
       StartUnlimited 1 3700000000, MarkOutOfOrder 1, StartTimed 1 30 3800000000]) 1) = 1 \<and>
   length (sessions (run_operations (start_timed_session seeded_db 1 60 0)
      [StartUnlimited 1 5000000, EndSession 1 0 3600000000 3600000000,
       StartUnlimited 1 3700000000, MarkOutOfOrder 1, StartTimed 1 30 3800000000])) = 2 \<and>
   fetch_active_session (start_timed_session seeded_db 1 60 0) 1 \<noteq> None \<and>
   start_timed_session (start_timed_session seeded_db 1 60 0) 1 30 5000000
     = start_timed_session seeded_db 1 60 0 \<and>
   start_unlimited_session (start_timed_session seeded_db 1 60 0) 1 5000000
     = start_timed_session seeded_db 1 60 0"
  using at_most_one_open_session [where db = "start_timed_session seeded_db 1 60 0" and t = 1
      and xs = "[StartUnlimited 1 5000000, StartTimed 6 30 6000000, AddOrder 1 1 2,
                 StartTimed 1 30 7000000]"
      and table_id = 1 and minutes = 30 and now = 5000000]
    at_most_one_open_session [where db = "start_timed_session seeded_db 1 60 0" and t = 1
      and xs = "[StartUnlimited 1 5000000, EndSession 1 0 3600000000 3600000000,
       StartUnlimited 1 3700000000, MarkOutOfOrder 1, StartTimed 1 30 3800000000]"
      and table_id = 1 and minutes = 30 and now = 5000000]
  by (simp add: operation_defs charge_defs)

section \<open>Ended sessions\<close>

lemma keeps_ended_refl: "keeps_ended xs xs"
  by (simp add: keeps_ended_def)

lemma keeps_ended_trans:
  assumes xy: "keeps_ended xs ys" and yz: "keeps_ended ys zs"
  shows "keeps_ended xs zs"
  unfolding keeps_ended_def
proof (intro conjI allI impI)
  show "length xs \<le> length zs"
    using xy yz by (simp add: keeps_ended_def)
next
  fix i assume i: "i < length xs"
  then have j: "i < length ys" using xy by (simp add: keeps_ended_def)
  show "s_id (zs ! i) = s_id (xs ! i)"
    using xy yz i j by (simp add: keeps_ended_def)
  assume "end_ts (xs ! i) \<noteq> None"
  then have "end_ts (ys ! i) \<noteq> None" using xy i by (simp add: keeps_ended_def)
  then show "end_ts (zs ! i) \<noteq> None" using yz j by (simp add: keeps_ended_def)
qed

lemma keeps_ended_append: "keeps_ended xs (xs @ ys)"
  by (simp add: keeps_ended_def nth_append)

lemma keeps_ended_close:
  "keeps_ended xs (map (\<lambda>s. if Q s then s\<lparr>end_ts := Some v\<rparr> else s) xs)"
  by (simp add: keeps_ended_def)

lemma keeps_ended_apply_operation:
  "keeps_ended (sessions db) (sessions (apply_operation db x))"
proof (cases x)
  case (EndSession table_id a b c)
  then show ?thesis
    by (simp add: end_session_def keeps_ended_refl keeps_ended_close split: option.splits)
qed (simp_all add: start_timed_session_def start_unlimited_session_def Let_def
      keeps_ended_refl keeps_ended_append sessions_add_order mark_table_out_of_order_def)

lemma keeps_ended_run_operations:
  "keeps_ended (sessions db) (sessions (run_operations db xs))"
proof (induction xs arbitrary: db)
  case Nil
  show ?case by (simp add: keeps_ended_refl)
next
  case (Cons x xs)
  show ?case
    using keeps_ended_trans [OF keeps_ended_apply_operation [of db x]
        Cons.IH [of "apply_operation db x"]]
    by simp
qed

lemma end_session_closes:
  assumes "fetch_active_session db table_id = Some session"
  shows "sessions (snd (end_session db table_id a b c)) =
           map (\<lambda>s. if s_id s = s_id session then s\<lparr>end_ts := Some (isoformat_seconds c)\<rparr> else s)
             (sessions db)"
  using assms by (simp add: end_session_def)

text \<open>
  Claim C7. When a table has an active session, \<open>end_session\<close> leaves that session's row
  with the end timestamp it took from the clock, and no row with the session's id
  without one. A row of \<open>sessions\<close> that has an end timestamp keeps its place and its id
  and has an end timestamp after every sequence of operations: none sets it back to
  null.
\<close>

theorem end_session_sets_end_ts:
  "(fetch_active_session db table_id = Some session \<longrightarrow>
      session\<lparr>end_ts := Some (isoformat_seconds now)\<rparr>
        \<in> set (sessions (snd (end_session db table_id now_start now_end now))) \<and>
      (\<forall>s \<in> set (sessions (snd (end_session db table_id now_start now_end now))).
         s_id s = s_id session \<longrightarrow> end_ts s \<noteq> None))
   \<and> (i < length (sessions db) \<and> end_ts (sessions db ! i) \<noteq> None \<longrightarrow>
        i < length (sessions (run_operations db xs)) \<and>
        s_id (sessions (run_operations db xs) ! i) = s_id (sessions db ! i) \<and>
        end_ts (sessions (run_operations db xs) ! i) \<noteq> None)"
proof (intro conjI impI)
  assume a: "fetch_active_session db table_id = Some session"
  note closes = end_session_closes [OF a, of now_start now_end now]
  have "session \<in> set (sessions db)" using a by (rule fetch_active_session_Some)
  then show "session\<lparr>end_ts := Some (isoformat_seconds now)\<rparr>
      \<in> set (sessions (snd (end_session db table_id now_start now_end now)))"
    unfolding closes by (auto simp: image_iff intro!: bexI [of _ session])
  show "\<forall>s \<in> set (sessions (snd (end_session db table_id now_start now_end now))).
      s_id s = s_id session \<longrightarrow> end_ts s \<noteq> None"
    unfolding closes by auto
next
  assume b: "i < length (sessions db) \<and> end_ts (sessions db ! i) \<noteq> None"
  have k: "keeps_ended (sessions db) (sessions (run_operations db xs))"
    by (rule keeps_ended_run_operations)
  show "i < length (sessions (run_operations db xs))"
    using b k by (simp add: keeps_ended_def)
  show "s_id (sessions (run_operations db xs) ! i) = s_id (sessions db ! i)"
    using b k by (simp add: keeps_ended_def)
  show "end_ts (sessions (run_operations db xs) ! i) \<noteq> None"
    using b k by (simp add: keeps_ended_def)
qed

theorem end_session_sets_end_ts_witness:
  "fetch_active_session (start_timed_session seeded_db 6 30 0) 6 = Some timed_session_row \<and>
   timed_session_row\<lparr>end_ts := Some (isoformat_seconds 1800500000)\<rparr>
     \<in> set (sessions (snd (end_session (start_timed_session seeded_db 6 30 0) 6 0
                1800000000 1800500000))) \<and>
   map end_ts (sessions (snd (end_session (start_timed_session seeded_db 6 30 0) 6 0
       1800000000 1800500000))) = [Some 1800] \<and>
   end_ts (sessions (run_operations
      (snd (end_session (start_timed_session seeded_db 6 30 0) 6 0 1800000000 1800500000))
      [StartUnlimited 6 1900000000, AddOrder 6 6 1, MarkOutOfOrder 6,
       EndSession 6 0 2000000000 2000000000, StartTimed 6 60 2100000000]) ! 0) \<noteq> None"
proof -
  let ?D = "start_timed_session seeded_db 6 30 0"
  let ?E = "snd (end_session ?D 6 0 1800000000 1800500000)"
  let ?xs = "[StartUnlimited 6 1900000000, AddOrder 6 6 1, MarkOutOfOrder 6,
       EndSession 6 0 2000000000 2000000000, StartTimed 6 60 2100000000]"
  have a: "fetch_active_session ?D 6 = Some timed_session_row"
    by (simp add: operation_defs timed_session_row_def)
  have e: "map end_ts (sessions ?E) = [Some 1800]"
    by (simp add: operation_defs)
  then have e0: "0 < length (sessions ?E) \<and> end_ts (sessions ?E ! 0) \<noteq> None"
    by (cases "sessions ?E") auto
  have m: "timed_session_row\<lparr>end_ts := Some (isoformat_seconds 1800500000)\<rparr>
      \<in> set (sessions ?E)"
    using a end_session_sets_end_ts [where db = ?D and table_id = 6
        and session = timed_session_row and now_start = 0 and now_end = 1800000000
        and now = 1800500000 and i = 0 and xs = "[]"]
    by blast
  have k: "end_ts (sessions (run_operations ?E ?xs) ! 0) \<noteq> None"
    using e0 end_session_sets_end_ts [where db = ?E and table_id = 6
        and session = timed_session_row and now_start = 0 and now_end = 1800000000
        and now = 1800500000 and i = 0 and xs = ?xs]
    by blast
  from a m e k show ?thesis by blast
qed

section \<open>The status of a table\<close>

lemma fetch_table_start_timed:
  assumes "fetch_active_session db table_id = None" "fetch_table db table_id = Some t"
  shows "fetch_table (start_timed_session db table_id minutes now) table_id =
           Some (t\<lparr>status := STATUS_OCCUPIED\<rparr>)"
proof -
  have "tables (start_timed_session db table_id minutes now) =
          map (\<lambda>t. if t_id t = table_id then t\<lparr>status := STATUS_OCCUPIED\<rparr> else t) (tables db)"
    using assms(1) by (simp add: start_timed_session_def Let_def)
  then have "fetch_table (start_timed_session db table_id minutes now) table_id =
          map_option (\<lambda>t. t\<lparr>status := STATUS_OCCUPIED\<rparr>) (fetch_table db table_id)"
    unfolding fetch_table_def
    using find_status_update [of table_id "\<lambda>t. STATUS_OCCUPIED" "tables db"] by simp
  then show ?thesis by (simp add: assms(2))
qed

lemma fetch_table_start_unlimited:
  assumes "fetch_active_session db table_id = None" "fetch_table db table_id = Some t"
  shows "fetch_table (start_unlimited_session db table_id now) table_id =
           Some (t\<lparr>status := STATUS_OCCUPIED\<rparr>)"
proof -
  have "tables (start_unlimited_session db table_id now) =
          map (\<lambda>t. if t_id t = table_id then t\<lparr>status := STATUS_OCCUPIED\<rparr> else t) (tables db)"
    using assms(1) by (simp add: start_unlimited_session_def Let_def)
  then have "fetch_table (start_unlimited_session db table_id now) table_id =
          map_option (\<lambda>t. t\<lparr>status := STATUS_OCCUPIED\<rparr>) (fetch_table db table_id)"
    unfolding fetch_table_def
    using find_status_update [of table_id "\<lambda>t. STATUS_OCCUPIED" "tables db"] by simp
  then show ?thesis by (simp add: assms(2))
qed

lemma fetch_table_end_session:
  assumes "fetch_active_session db table_id = Some session" "fetch_table db table_id = Some t"
  shows "fetch_table (snd (end_session db table_id a b c)) table_id =
           Some (t\<lparr>status := (if is_out_of_order t = Some 1
                                then STATUS_OUT_OF_ORDER else STATUS_EMPTY)\<rparr>)"
proof -
  have "tables (snd (end_session db table_id a b c)) =
          map (\<lambda>t. if t_id t = table_id
                    then t\<lparr>status := (if is_out_of_order t = Some 1
                                        then STATUS_OUT_OF_ORDER else STATUS_EMPTY)\<rparr>
                    else t) (tables db)"
    using assms(1) by (simp add: end_session_def)
  then have "fetch_table (snd (end_session db table_id a b c)) table_id =
          map_option (\<lambda>t. t\<lparr>status := (if is_out_of_order t = Some 1
                                        then STATUS_OUT_OF_ORDER else STATUS_EMPTY)\<rparr>)
            (fetch_table db table_id)"
    unfolding fetch_table_def
    using find_status_update [of table_id
        "\<lambda>t. if is_out_of_order t = Some 1 then STATUS_OUT_OF_ORDER else STATUS_EMPTY" "tables db"]
    by simp
  then show ?thesis by (simp add: assms(2))
qed

text \<open>
  Claim C9. On a table with no active session, \<open>start_timed_session\<close> and
  \<open>start_unlimited_session\<close> leave the table's row as it was but for the status, which is
  Occupied. On a table with an active session, \<open>end_session\<close> leaves the row as it was
  but for the status, which is OutOfOrder when the row's \<open>is_out_of_order\<close> is 1 and
  Empty otherwise.
\<close>

theorem session_operations_set_status:
  "(fetch_active_session db table_id = None \<and> fetch_table db table_id = Some t \<longrightarrow>
      fetch_table (start_timed_session db table_id minutes now) table_id
        = Some (t\<lparr>status := STATUS_OCCUPIED\<rparr>) \<and>
      fetch_table (start_unlimited_session db table_id now) table_id
        = Some (t\<lparr>status := STATUS_OCCUPIED\<rparr>))
   \<and> (fetch_active_session db table_id \<noteq> None \<and> fetch_table db table_id = Some t \<longrightarrow>
      fetch_table (snd (end_session db table_id now_start now_end now)) table_id
        = Some (t\<lparr>status := (if is_out_of_order t = Some 1
                                then STATUS_OUT_OF_ORDER else STATUS_EMPTY)\<rparr>))"
proof (intro conjI impI)
  assume a: "fetch_active_session db table_id = None \<and> fetch_table db table_id = Some t"
  show "fetch_table (start_timed_session db table_id minutes now) table_id
      = Some (t\<lparr>status := STATUS_OCCUPIED\<rparr>)"
    using a by (simp add: fetch_table_start_timed)
  show "fetch_table (start_unlimited_session db table_id now) table_id
      = Some (t\<lparr>status := STATUS_OCCUPIED\<rparr>)"
    using a by (simp add: fetch_table_start_unlimited)
next
  assume b: "fetch_active_session db table_id \<noteq> None \<and> fetch_table db table_id = Some t"
  then obtain session where s: "fetch_active_session db table_id = Some session"
    by auto
  show "fetch_table (snd (end_session db table_id now_start now_end now)) table_id
      = Some (t\<lparr>status := (if is_out_of_order t = Some 1
                              then STATUS_OUT_OF_ORDER else STATUS_EMPTY)\<rparr>)"
    using fetch_table_end_session [OF s] b by simp
qed

theorem session_operations_set_status_witness:
  "fetch_active_session seeded_db 6 = None \<and>
   map_option status (fetch_table seeded_db 6) = Some STATUS_EMPTY \<and>
   map_option status (fetch_table (start_timed_session seeded_db 6 30 0) 6)
     = Some STATUS_OCCUPIED \<and>
   map_option status (fetch_table (start_unlimited_session seeded_db 6 0) 6)
     = Some STATUS_OCCUPIED \<and>
   fetch_active_session (start_unlimited_session seeded_db 6 0) 6 \<noteq> None \<and>
   map_option status (fetch_table
      (snd (end_session (start_unlimited_session seeded_db 6 0) 6 0 600000000 600000000)) 6)
     = Some STATUS_EMPTY \<and>
   map_option is_out_of_order (fetch_table
      (mark_table_out_of_order (start_unlimited_session seeded_db 6 0) 6) 6) = Some (Some 1) \<and>
   map_option status (fetch_table
      (snd (end_session (mark_table_out_of_order (start_unlimited_session seeded_db 6 0) 6)
         6 0 600000000 600000000)) 6)
     = Some STATUS_OUT_OF_ORDER"
  using session_operations_set_status [where db = seeded_db and table_id = 6
      and t = "\<lparr>t_id = 6, t_name = ''Table 6'', t_kind = TABLE_KIND_STANDARD,
        status = STATUS_EMPTY, hardware = ''GTX 1650, 75Hz Monitor'',
        is_out_of_order = Some 0\<rparr>"
      and minutes = 30 and now = 0 and now_start = 0 and now_end = 0]
    session_operations_set_status [where db = "start_unlimited_session seeded_db 6 0"
      and table_id = 6
      and t = "\<lparr>t_id = 6, t_name = ''Table 6'', t_kind = TABLE_KIND_STANDARD,
        status = STATUS_OCCUPIED, hardware = ''GTX 1650, 75Hz Monitor'',
        is_out_of_order = Some 0\<rparr>"
      and minutes = 30 and now = 600000000 and now_start = 0 and now_end = 600000000]
    session_operations_set_status
      [where db = "mark_table_out_of_order (start_unlimited_session seeded_db 6 0) 6"
      and table_id = 6
      and t = "\<lparr>t_id = 6, t_name = ''Table 6'', t_kind = TABLE_KIND_STANDARD,
        status = STATUS_OUT_OF_ORDER, hardware = ''GTX 1650, 75Hz Monitor'',
        is_out_of_order = Some 1\<rparr>"
      and minutes = 30 and now = 600000000 and now_start = 0 and now_end = 600000000]
  by (simp add: operation_defs)

section \<open>Closing a table that has no active session\<close>

text \<open>
  Claim C10. On a table with no active session \<open>end_session\<close> returns \<open>(0.0, 0)\<close> and the
  store it leaves is the store it found: no row of any of the four tables is changed.
\<close>

theorem end_session_without_active_session:
  "fetch_active_session db table_id = None \<Longrightarrow>
     end_session db table_id now_start now_end now = ((0, 0), db)"
  by (simp add: end_session_def)

theorem end_session_without_active_session_witness:
  "fetch_active_session
     (snd (end_session (start_unlimited_session seeded_db 6 0) 6 0 600000000 600000000)) 6 = None \<and>
   end_session
     (snd (end_session (start_unlimited_session seeded_db 6 0) 6 0 600000000 600000000))
     6 0 700000000 700000000
     = ((0, 0), snd (end_session (start_unlimited_session seeded_db 6 0) 6 0 600000000 600000000))"
  using end_session_without_active_session
    [of "snd (end_session (start_unlimited_session seeded_db 6 0) 6 0 600000000 600000000)"
      6 0 700000000 700000000]
  by (simp add: operation_defs)

section \<open>Sessions as the program writes them\<close>

lemma py_round_of_int: "py_round (real_of_int m) = m"
  by (simp add: py_round_def Let_def)

lemma timed_planned_Timed:
  "timed_planned s \<Longrightarrow> s_kind s = ''Timed'' \<Longrightarrow>
     \<exists>m. planned_minutes s = Some m \<and> 1 \<le> m \<and> timed_guard s = Some m"
  by (cases "planned_minutes s") (auto simp: timed_planned_def timed_guard_def)

lemma not_Timed_guard: "s_kind s \<noteq> ''Timed'' \<Longrightarrow> timed_guard s = None"
  by (simp add: timed_guard_def)






lemma billed_minutes_mono:
  assumes p1: "timed_planned s1" and p2: "timed_planned s2"
    and le: "elapsed_or_planned_minutes s1 a1 b1 \<le> elapsed_or_planned_minutes s2 a2 b2"
  shows "snd (calculate_time_charge s1 a1 b1) \<le> snd (calculate_time_charge s2 a2 b2)"
proof -
  let ?e1 = "real_of_int (b1 - session_start s1 a1) / 1000000 / 60"
  let ?e2 = "real_of_int (b2 - session_start s2 a2) / 1000000 / 60"
  show ?thesis
  proof (cases "s_kind s1 = ''Timed''")
    case t1: True
    from timed_planned_Timed [OF p1 t1] obtain m1
      where m1: "planned_minutes s1 = Some m1" "1 \<le> m1" "timed_guard s1 = Some m1" by blast
    have i1: "elapsed_or_planned_minutes s1 a1 b1 = real_of_int m1"
      by (simp add: elapsed_or_planned_minutes_def t1 m1(1))
    have c1: "snd (calculate_time_charge s1 a1 b1) = m1"
      by (simp add: planned_minutes_billed [OF m1(3)])
    show ?thesis
    proof (cases "s_kind s2 = ''Timed''")
      case t2: True
      from timed_planned_Timed [OF p2 t2] obtain m2
        where m2: "planned_minutes s2 = Some m2" "1 \<le> m2" "timed_guard s2 = Some m2" by blast
      have "elapsed_or_planned_minutes s2 a2 b2 = real_of_int m2"
        by (simp add: elapsed_or_planned_minutes_def t2 m2(1))
      then have "m1 \<le> m2" using le i1 by simp
      then show ?thesis by (simp add: c1 planned_minutes_billed [OF m2(3)])
    next
      case t2: False
      have "elapsed_or_planned_minutes s2 a2 b2 = ?e2"
        by (simp add: elapsed_or_planned_minutes_def t2)
      then have "real_of_int m1 \<le> ?e2" using le i1 by simp
      then have "py_round (real_of_int m1) \<le> py_round ?e2" by (rule py_round_mono)
      then have "m1 \<le> py_round ?e2" by (simp only: py_round_of_int)
      then show ?thesis
        by (simp add: c1 elapsed_minutes [OF not_Timed_guard [OF t2]])
    qed
  next
    case t1: False
    have i1: "elapsed_or_planned_minutes s1 a1 b1 = ?e1"
      by (simp add: elapsed_or_planned_minutes_def t1)
    have c1: "snd (calculate_time_charge s1 a1 b1) = max 1 (py_round ?e1)"
      by (rule elapsed_minutes [OF not_Timed_guard [OF t1]])
    show ?thesis
    proof (cases "s_kind s2 = ''Timed''")
      case t2: True
      from timed_planned_Timed [OF p2 t2] obtain m2
        where m2: "planned_minutes s2 = Some m2" "1 \<le> m2" "timed_guard s2 = Some m2" by blast
      have "elapsed_or_planned_minutes s2 a2 b2 = real_of_int m2"
        by (simp add: elapsed_or_planned_minutes_def t2 m2(1))
      then have "?e1 \<le> real_of_int m2" using le i1 by simp
      then have "py_round ?e1 \<le> py_round (real_of_int m2)" by (rule py_round_mono)
      then have "py_round ?e1 \<le> m2" by (simp only: py_round_of_int)
      then have "max 1 (py_round ?e1) \<le> m2" using m2(2) by simp
      then show ?thesis by (simp only: c1 planned_minutes_billed [OF m2(3)] snd_conv)
    next
      case t2: False
      have "elapsed_or_planned_minutes s2 a2 b2 = ?e2"
        by (simp add: elapsed_or_planned_minutes_def t2)
      then have "?e1 \<le> ?e2" using le i1 by simp
      then have "py_round ?e1 \<le> py_round ?e2" by (rule py_round_mono)
      then have "max 1 (py_round ?e1) \<le> max 1 (py_round ?e2)" by simp
      then show ?thesis
        by (simp only: c1 elapsed_minutes [OF not_Timed_guard [OF t2]])
    qed
  qed
qed

section \<open>The charge computed at close\<close>



section \<open>The charge grows with the minutes\<close>

text \<open>
  Claim C6. Take two sessions as the program writes them, with the same hourly rate, not
  negative. If the elapsed-or-planned minutes of the first (its planned minutes when it
  is Timed, the time from its start to its close otherwise) are at most those of the
  second, the charge of the first is at most the charge of the second, rounding to two
  decimals included. In particular closing a session later never lowers its charge.
\<close>

theorem charge_monotonic_in_minutes:
  assumes "timed_planned s1" and "timed_planned s2"
    and "hourly_of s1 = hourly_of s2" and "0 \<le> hourly_of s1"
  shows "(elapsed_or_planned_minutes s1 a1 b1 \<le> elapsed_or_planned_minutes s2 a2 b2 \<longrightarrow>
            fst (calculate_time_charge s1 a1 b1) \<le> fst (calculate_time_charge s2 a2 b2))
     \<and> (b1 \<le> b1' \<longrightarrow>
            fst (calculate_time_charge s1 a1 b1) \<le> fst (calculate_time_charge s1 a1 b1'))"
proof (intro conjI impI)
  assume "elapsed_or_planned_minutes s1 a1 b1 \<le> elapsed_or_planned_minutes s2 a2 b2"
  then have "snd (calculate_time_charge s1 a1 b1) \<le> snd (calculate_time_charge s2 a2 b2)"
    using assms(1) assms(2) by (simp add: billed_minutes_mono)
  then show "fst (calculate_time_charge s1 a1 b1) \<le> fst (calculate_time_charge s2 a2 b2)"
    using assms(3) assms(4) by (rule charge_mono_in_minutes [rotated 2])
next
  assume "b1 \<le> b1'"
  then have "snd (calculate_time_charge s1 a1 b1) \<le> snd (calculate_time_charge s1 a1 b1')"
    by (rule later_close_more_minutes)
  then show "fst (calculate_time_charge s1 a1 b1) \<le> fst (calculate_time_charge s1 a1 b1')"
    using assms(4) charge_mono_in_minutes [of s1 s1 a1 b1 a1 b1'] by simp
qed

theorem charge_monotonic_in_minutes_witness:
  "timed_planned unlimited_session_row \<and> timed_planned timed_session_row \<and>
   hourly_of unlimited_session_row = hourly_of timed_session_row \<and>
   0 \<le> hourly_of unlimited_session_row \<and>
   elapsed_or_planned_minutes unlimited_session_row 0 600000000 = 10 \<and>
   elapsed_or_planned_minutes timed_session_row 0 600000000 = 30 \<and>
   fst (calculate_time_charge unlimited_session_row 0 600000000) = 333 / 100 \<and>
   fst (calculate_time_charge timed_session_row 0 600000000) = 10 \<and>
   fst (calculate_time_charge unlimited_session_row 0 600000000)
     \<le> fst (calculate_time_charge timed_session_row 0 600000000) \<and>
   fst (calculate_time_charge unlimited_session_row 0 600000000)
     \<le> fst (calculate_time_charge unlimited_session_row 0 1200000000)"
proof -
  have p1: "timed_planned unlimited_session_row"
    by (simp add: timed_planned_def unlimited_session_row_def)
  have p2: "timed_planned timed_session_row"
    by (simp add: timed_planned_def timed_session_row_def)
  have h: "hourly_of unlimited_session_row = hourly_of timed_session_row"
    by (simp add: hourly_of_def unlimited_session_row_def timed_session_row_def)
  have n: "0 \<le> hourly_of unlimited_session_row"
    by (simp add: hourly_of_def unlimited_session_row_def)
  have e1: "elapsed_or_planned_minutes unlimited_session_row 0 600000000 = 10"
    by (simp add: elapsed_or_planned_minutes_def session_start_def fromisoformat_def
        unlimited_session_row_def)
  have e2: "elapsed_or_planned_minutes timed_session_row 0 600000000 = 30"
    by (simp add: elapsed_or_planned_minutes_def timed_session_row_def)
  have c1: "fst (calculate_time_charge unlimited_session_row 0 600000000) = 333 / 100"
    by (simp add: unlimited_session_row_def charge_defs)
  have c2: "fst (calculate_time_charge timed_session_row 0 600000000) = 10"
    by (simp add: timed_session_row_def charge_defs)
  note t = charge_monotonic_in_minutes [OF p1 p2 h n, of 0 600000000 0 600000000 1200000000]
  have le1: "fst (calculate_time_charge unlimited_session_row 0 600000000)
      \<le> fst (calculate_time_charge timed_session_row 0 600000000)"
    using t e1 e2 by simp
  have le2: "fst (calculate_time_charge unlimited_session_row 0 600000000)
      \<le> fst (calculate_time_charge unlimited_session_row 0 1200000000)"
    using t by simp
  from p1 p2 h n e1 e2 c1 c2 le1 le2 show ?thesis by blast
qed

section \<open>The session kind and the source of the charge\<close>



end
